theory Spec2Isabelle
  imports Complex_Main "HOL-Library.DAList"
begin

section \<open>Python values used by the notebook cells\<close>

text \<open>
  The code verified here is the code cells of the spaghetti-plot notebook
  (\<^verbatim>\<open>src/unnamed/part_001\<close>). A cell is straight-line Python with list
  comprehensions and \<^verbatim>\<open>for\<close> loops. Lists are HOL lists, Python's unbounded integers
  are \<open>int\<close>, strings are \<open>string\<close>, and every exception an expression of a cell can
  raise is a value of \<open>py_error\<close>.
\<close>

datatype py_error =
  IndexError | KeyError | ZeroDivisionError | ValueError | NameError | TypeError

text \<open>Sequencing of two fallible steps: the first exception raised ends the evaluation.\<close>

definition bind_err :: "py_error + 'a \<Rightarrow> ('a \<Rightarrow> py_error + 'b) \<Rightarrow> py_error + 'b" where
  "bind_err r f = (case r of Inl e \<Rightarrow> Inl e | Inr v \<Rightarrow> f v)"

text \<open>
  A list comprehension \<^verbatim>\<open>[f(i) for i in xs]\<close>: the element expression is evaluated
  for each item from left to right; over an empty list it is never evaluated.
\<close>

fun list_comp :: "('a \<Rightarrow> py_error + 'b) \<Rightarrow> 'a list \<Rightarrow> py_error + 'b list" where
  "list_comp f [] = Inr []"
| "list_comp f (x # xs) =
     bind_err (f x) (\<lambda>y. bind_err (list_comp f xs) (\<lambda>ys. Inr (y # ys)))"

text \<open>
  Subscripting a list, \<^verbatim>\<open>xs[i]\<close>: a negative index counts from the end, and an index
  outside the list raises \<^verbatim>\<open>IndexError\<close>.
\<close>

definition py_index :: "'a list \<Rightarrow> int \<Rightarrow> py_error + 'a" where
  "py_index xs i =
     (if 0 \<le> i \<and> i < int (length xs) then Inr (xs ! nat i)
      else if i < 0 \<and> - int (length xs) \<le> i then Inr (xs ! nat (int (length xs) + i))
      else Inl IndexError)"

text \<open>\<^verbatim>\<open>range(start, stop)\<close> and \<^verbatim>\<open>range(stop)\<close>, as the list of their items.\<close>

definition py_range :: "int \<Rightarrow> int \<Rightarrow> int list" where
  "py_range start stop = [start..stop - 1]"

definition py_range0 :: "int \<Rightarrow> int list" where
  "py_range0 stop = py_range 0 stop"

subsection \<open>Decimal strings\<close>

definition digit_char :: "nat \<Rightarrow> char" where
  "digit_char d = char_of (48 + d)"

text \<open>The decimal digits of a natural number, most significant first.\<close>

function str_nat :: "nat \<Rightarrow> string" where
  "str_nat n = (if n < 10 then [digit_char n] else str_nat (n div 10) @ [digit_char (n mod 10)])"
  by pat_completeness auto
termination
  by (relation "measure (\<lambda>n. n)") auto

declare str_nat.simps [simp del]

text \<open>
  \<^verbatim>\<open>str(i)\<close> of an integer, which is also what \<^verbatim>\<open>'%d' % i\<close> prints: the decimal
  digits, after a minus sign when the integer is negative.
\<close>

definition str_int :: "int \<Rightarrow> string" where
  "str_int i = (if i < 0 then CHR ''-'' # str_nat (nat (- i)) else str_nat (nat i))"

text \<open>
  \<^verbatim>\<open>s.zfill(width)\<close>: zeros are put on the left until the string is \<open>width\<close> long,
  after a leading sign if there is one; a string that is long enough is returned as it is.
\<close>

definition zfill :: "nat \<Rightarrow> string \<Rightarrow> string" where
  "zfill width s =
     (if width \<le> length s then s
      else (case s of
              [] \<Rightarrow> replicate width CHR ''0''
            | c # rest \<Rightarrow>
                if c = CHR ''+'' \<or> c = CHR ''-''
                then c # replicate (width - length s) CHR ''0'' @ rest
                else replicate (width - length s) CHR ''0'' @ s))"

section \<open>Keys of the GFS ensemble members\<close>

text \<open>
  \<^verbatim>\<open>GFS_keys = ['AP' + str(i).zfill(2) for i in range(1, 21)]\<close>
\<close>

definition GFS_keys :: "string list" where
  "GFS_keys = map (\<lambda>i. ''AP'' @ zfill 2 (str_int i)) (py_range 1 21)"

text \<open>
  The forecast loop \<^verbatim>\<open>for i in range(20): ap = forecasts[GFS_keys[i]] ...\<close>: the
  subscripts \<^verbatim>\<open>GFS_keys[i]\<close> it evaluates, in order.
\<close>

definition forecast_loop_keys :: "py_error + string list" where
  "forecast_loop_keys = list_comp (\<lambda>i. py_index GFS_keys i) (py_range0 20)"

section \<open>NumPy calls made by the cells\<close>

text \<open>
  \<^verbatim>\<open>np.arange(start, stop, step)\<close> on integers holds
  \<open>\<lceil>(stop - start) / step\<rceil>\<close> items \<open>start + i * step\<close> (none when that number is
  not positive), and raises \<^verbatim>\<open>ZeroDivisionError\<close> for a zero step.
\<close>

definition np_arange_int :: "int \<Rightarrow> int \<Rightarrow> int \<Rightarrow> py_error + int list" where
  "np_arange_int start stop step =
     (if step = 0 then Inl ZeroDivisionError
      else Inr (map (\<lambda>i. start + int i * step) [0..<nat (- ((start - stop) div step))]))"

text \<open>
  The two-argument call \<^verbatim>\<open>np.arange(start, stop)\<close> has step 1. On integers it is
  \<open>start, start + 1, ...\<close> below \<open>stop\<close>; on floats it holds \<open>\<lceil>stop - start\<rceil>\<close> items
  \<open>start + i\<close>. The floats of the colorbar cell are years and years plus one half, which
  binary floating point represents exactly, so they are modelled as rationals.
\<close>

definition np_arange1_int :: "int \<Rightarrow> int \<Rightarrow> int list" where
  "np_arange1_int start stop = map (\<lambda>i. start + int i) [0..<nat (stop - start)]"

definition np_arange1_float :: "rat \<Rightarrow> rat \<Rightarrow> rat list" where
  "np_arange1_float start stop = map (\<lambda>i. start + of_nat i) [0..<nat \<lceil>stop - start\<rceil>]"

text \<open>\<^verbatim>\<open>np.full_like(a, v)\<close>: an array of the shape of \<open>a\<close>, every item \<open>v\<close>.\<close>

definition np_full_like :: "'a list \<Rightarrow> 'b \<Rightarrow> 'b list" where
  "np_full_like a v = replicate (length a) v"

text \<open>\<^verbatim>\<open>zip(xs, ys, zs)\<close> stops with the shortest of its three arguments.\<close>

fun py_zip3 :: "'a list \<Rightarrow> 'b list \<Rightarrow> 'c list \<Rightarrow> ('a \<times> 'b \<times> 'c) list" where
  "py_zip3 (x # xs) (y # ys) (z # zs) = (x, y, z) # py_zip3 xs ys zs"
| "py_zip3 _ _ _ = []"

section \<open>Directional labels of the polar stereographic cells\<close>

text \<open>
  \<^verbatim>\<open>etick = ['0'] + [r'%dE' % tick for tick in ticks if (tick != 0) & (tick != 180)] + ['180']\<close>
  \<^verbatim>\<open>wtick = [r'%dW' % tick for tick in ticks if (tick != 0) & (tick != 180)]\<close>
  \<^verbatim>\<open>labels = etick + wtick\<close>
\<close>

definition etick :: "int list \<Rightarrow> string list" where
  "etick ticks =
     [''0''] @ map (\<lambda>tick. str_int tick @ ''E'') (filter (\<lambda>tick. tick \<noteq> 0 \<and> tick \<noteq> 180) ticks)
     @ [''180'']"

definition wtick :: "int list \<Rightarrow> string list" where
  "wtick ticks = map (\<lambda>tick. str_int tick @ ''W'') (filter (\<lambda>tick. tick \<noteq> 0 \<and> tick \<noteq> 180) ticks)"

definition labels :: "int list \<Rightarrow> string list" where
  "labels ticks = etick ticks @ wtick ticks"

text \<open>One call of \<^verbatim>\<open>ax.text\<close>, with the arguments the cell passes.\<close>

record text_call =
  text_x :: int
  text_y :: int
  text_s :: string
  fontsize :: nat
  horizontalalignment :: string
  verticalalignment :: string

text \<open>
  The body of \<^verbatim>\<open>for xtick, ytick, label in zip(xticks, yticks, labels)\<close>: the three
  branches differ in the vertical alignment only.
\<close>

definition label_text :: "int \<times> int \<times> string \<Rightarrow> text_call" where
  "label_text t =
     (case t of (xtick, ytick, label) \<Rightarrow>
        if label = ''180''
        then \<lparr>text_x = xtick, text_y = ytick, text_s = label, fontsize = 12,
              horizontalalignment = ''center'', verticalalignment = ''top''\<rparr>
        else if label = ''0''
        then \<lparr>text_x = xtick, text_y = ytick, text_s = label, fontsize = 12,
              horizontalalignment = ''center'', verticalalignment = ''bottom''\<rparr>
        else \<lparr>text_x = xtick, text_y = ytick, text_s = label, fontsize = 12,
              horizontalalignment = ''center'', verticalalignment = ''center''\<rparr>)"

text \<open>
  The label list of the cell, from \<^verbatim>\<open>ticks = np.arange(0, 210, 30)\<close>, and the tick
  longitudes \<^verbatim>\<open>xticks = np.arange(0, 360, 30)\<close>.
\<close>

definition cell_labels :: "py_error + string list" where
  "cell_labels = bind_err (np_arange_int 0 210 30) (\<lambda>ticks. Inr (labels ticks))"

definition cell_xticks :: "py_error + int list" where
  "cell_xticks = np_arange_int 0 360 30"

text \<open>The whole labelling part of the cell: the calls of \<^verbatim>\<open>ax.text\<close> it makes, in order.\<close>

definition directional_labels :: "py_error + text_call list" where
  "directional_labels =
     bind_err (np_arange_int 0 210 30) (\<lambda>ticks.
     bind_err (np_arange_int 0 360 30) (\<lambda>xticks.
       let yticks = np_full_like xticks (- 5)
       in Inr (map label_text (py_zip3 xticks yticks (labels ticks)))))"

section \<open>Colorbar ticks of the contour cell\<close>

text \<open>
  \<^verbatim>\<open>year_n = (ds.time.isel(time=12*n) / 12).astype(int) + year_0\<close>: the time
  coordinate counts months, \<^verbatim>\<open>astype(int)\<close> drops the fraction towards zero.
\<close>

definition astype_int :: "rat \<Rightarrow> int" where
  "astype_int x = (if 0 \<le> x then \<lfloor>x\<rfloor> else \<lceil>x\<rceil>)"

definition year_n_of :: "int \<Rightarrow> rat \<Rightarrow> int" where
  "year_n_of year_0 months = astype_int (months / 12) + year_0"

text \<open>
  The colorbar of \<^verbatim>\<open>ScalarMappable(cmap, norm)\<close> with a colormap of \<open>n\<close> colors and
  \<^verbatim>\<open>norm = plt.Normalize(vmin, vmax)\<close> shows \<open>n\<close> boxes of equal width between
  \<open>vmin\<close> and \<open>vmax\<close>; box \<open>j\<close> (from 0) has these two ends.
\<close>

definition color_box :: "nat \<Rightarrow> rat \<Rightarrow> rat \<Rightarrow> nat \<Rightarrow> rat \<times> rat" where
  "color_box n vmin vmax j =
     (vmin + of_nat j * (vmax - vmin) / of_nat n, vmin + of_nat (j + 1) * (vmax - vmin) / of_nat n)"

definition box_midpoint :: "nat \<Rightarrow> rat \<Rightarrow> rat \<Rightarrow> nat \<Rightarrow> rat" where
  "box_midpoint n vmin vmax j = (fst (color_box n vmin vmax j) + snd (color_box n vmin vmax j)) / 2"

text \<open>
  \<^verbatim>\<open>cbar.set_ticks(positions)\<close> followed by \<^verbatim>\<open>cbar.set_ticklabels(labels)\<close>: the
  i-th label is put at the i-th position; matplotlib raises \<^verbatim>\<open>ValueError\<close> when the
  two lists differ in length.
\<close>

definition set_ticklabels :: "'a list \<Rightarrow> 'b list \<Rightarrow> py_error + ('a \<times> 'b) list" where
  "set_ticklabels positions labs =
     (if length positions = length labs then Inr (zip positions labs) else Inl ValueError)"

text \<open>
  \<^verbatim>\<open>cbar.set_ticks(np.arange(year_0+0.5, year_n))\<close>
  \<^verbatim>\<open>cbar.set_ticklabels(np.arange(year_0, year_n))\<close>
\<close>

definition tick_positions :: "int \<Rightarrow> int \<Rightarrow> rat list" where
  "tick_positions year_0 year_n = np_arange1_float (of_int year_0 + 1 / 2) (of_int year_n)"

definition tick_labels :: "int \<Rightarrow> int \<Rightarrow> int list" where
  "tick_labels year_0 year_n = np_arange1_int year_0 year_n"

definition colorbar_ticks :: "int \<Rightarrow> int \<Rightarrow> py_error + (rat \<times> int) list" where
  "colorbar_ticks year_0 year_n =
     set_ticklabels (tick_positions year_0 year_n) (tick_labels year_0 year_n)"

section \<open>Normalized initialization times\<close>

text \<open>
  \<^verbatim>\<open>times = [datetime.datetime.strptime(i, format) for i in list(forecasts_AP01.keys())]\<close>
  \<^verbatim>\<open>normalized_times = [(i - times[0]) / (times[-1] - times[0]) for i in times]\<close>

  A naive datetime is modelled by its position on the time line, an integer count of
  microseconds (the resolution of \<^verbatim>\<open>datetime\<close>); the difference of two datetimes, a
  \<^verbatim>\<open>timedelta\<close>, is the difference of the counts. Dividing a timedelta by a timedelta
  raises \<^verbatim>\<open>ZeroDivisionError\<close> when the divisor is zero and otherwise gives the
  quotient as a float; the model keeps the exact quotient, a rational, of which the float
  is the rounding.
\<close>

type_synonym datetime = int

definition timedelta_truediv :: "int \<Rightarrow> int \<Rightarrow> py_error + rat" where
  "timedelta_truediv a b = (if b = 0 then Inl ZeroDivisionError else Inr (of_int a / of_int b))"

text \<open>
  The element expression \<^verbatim>\<open>(i - times[0]) / (times[-1] - times[0])\<close>, its operands
  evaluated from left to right; \<open>ts\<close> is the list \<^verbatim>\<open>times\<close>.
\<close>

definition normalize_time :: "datetime list \<Rightarrow> datetime \<Rightarrow> py_error + rat" where
  "normalize_time ts i =
     bind_err (py_index ts 0) (\<lambda>first.
     bind_err (py_index ts (- 1)) (\<lambda>final.
     bind_err (py_index ts 0) (\<lambda>first'.
       timedelta_truediv (i - first) (final - first'))))"

definition normalized_times :: "datetime list \<Rightarrow> py_error + rat list" where
  "normalized_times ts = list_comp (normalize_time ts) ts"

section \<open>Figures, axes and lines\<close>

text \<open>
  The state of \<^verbatim>\<open>matplotlib.pyplot\<close> the cells act on: the axes created so far, each
  with the lines plotted on it, and the current axes. The coordinate arrays of a line are
  of a type \<open>'d\<close> the cells never look into; \<open>'c\<close> is the type of a color looked up in a
  colormap.
\<close>

datatype 'c py_color = Named string | RGBA 'c

record ('d, 'c) line2d =
  xdata :: 'd
  ydata :: 'd
  color :: "'c py_color"
  linewidth :: rat
  line_label :: "string option"

record ('d, 'c) axes =
  projection :: string
  artists :: "string list"
  lines :: "('d, 'c) line2d list"
  legend :: "string list option"
  title :: string

record ('d, 'c) pyplot =
  figure_axes :: "('d, 'c) axes list"
  current :: "nat option"

text \<open>
  \<^verbatim>\<open>plt.axes(projection=...)\<close> adds a new axes to the figure and makes it the current
  one. The result is the new axes (its position in the list) and the new state.
\<close>

definition plt_axes :: "string \<Rightarrow> ('d, 'c) pyplot \<Rightarrow> nat \<times> ('d, 'c) pyplot" where
  "plt_axes proj s =
     (length (figure_axes s),
      s\<lparr>figure_axes := figure_axes s @
           [\<lparr>projection = proj, artists = [], lines = [], legend = None, title = []\<rparr>],
        current := Some (length (figure_axes s))\<rparr>)"

text \<open>\<^verbatim>\<open>plt.gca()\<close>: the current axes, created when there is none.\<close>

definition gca :: "('d, 'c) pyplot \<Rightarrow> nat \<times> ('d, 'c) pyplot" where
  "gca s = (case current s of Some a \<Rightarrow> (a, s) | None \<Rightarrow> plt_axes ''rectilinear'' s)"

definition on_axes ::
  "nat \<Rightarrow> (('d, 'c) axes \<Rightarrow> ('d, 'c) axes) \<Rightarrow> ('d, 'c) pyplot \<Rightarrow> ('d, 'c) pyplot" where
  "on_axes a f s = s\<lparr>figure_axes := (figure_axes s)[a := f (figure_axes s ! a)]\<rparr>"

text \<open>
  \<^verbatim>\<open>plt.plot(x, y, color=..., linewidth=..., label=...)\<close> draws one line on the current
  axes and returns it.
\<close>

definition plt_plot ::
  "'d \<Rightarrow> 'd \<Rightarrow> 'c py_color \<Rightarrow> rat \<Rightarrow> string option \<Rightarrow> ('d, 'c) pyplot
     \<Rightarrow> ('d, 'c) line2d \<times> ('d, 'c) pyplot" where
  "plt_plot x y c lw lab s =
     (case gca s of (a, s') \<Rightarrow>
        let l = \<lparr>xdata = x, ydata = y, color = c, linewidth = lw, line_label = lab\<rparr>
        in (l, on_axes a (\<lambda>ax. ax\<lparr>lines := lines ax @ [l]\<rparr>) s'))"

definition plt_legend :: "string list \<Rightarrow> ('d, 'c) pyplot \<Rightarrow> ('d, 'c) pyplot" where
  "plt_legend labs s = (case gca s of (a, s') \<Rightarrow> on_axes a (\<lambda>ax. ax\<lparr>legend := Some labs\<rparr>) s')"

definition plt_title :: "string \<Rightarrow> ('d, 'c) pyplot \<Rightarrow> ('d, 'c) pyplot" where
  "plt_title t s = (case gca s of (a, s') \<Rightarrow> on_axes a (\<lambda>ax. ax\<lparr>title := t\<rparr>) s')"

text \<open>
  \<^verbatim>\<open>ax.add_feature(...)\<close> and \<^verbatim>\<open>ax.gridlines(...)\<close> add an artist that is not a
  line to the axes \<open>ax\<close>.
\<close>

definition add_artist :: "nat \<Rightarrow> string \<Rightarrow> ('d, 'c) pyplot \<Rightarrow> ('d, 'c) pyplot" where
  "add_artist a name s = on_axes a (\<lambda>ax. ax\<lparr>artists := artists ax @ [name]\<rparr>) s"

text \<open>
  The first lines of each hurricane cell:
  \<^verbatim>\<open>ax = plt.axes(projection=ccrs.PlateCarree())\<close>,
  \<^verbatim>\<open>ax.add_feature(cfeature.LAND, facecolor='lightgray')\<close>,
  \<^verbatim>\<open>gl = ax.gridlines(...)\<close>; the assignments to attributes of \<open>gl\<close> that follow
  change the gridliner only.
\<close>

definition setup_axes :: "('d, 'c) pyplot \<Rightarrow> nat \<times> ('d, 'c) pyplot" where
  "setup_axes s =
     (case plt_axes ''PlateCarree'' s of (ax, s1) \<Rightarrow>
        (ax, add_artist ax ''gridlines'' (add_artist ax ''LAND'' s1)))"

section \<open>Forecast dictionaries\<close>

text \<open>
  A Python \<^verbatim>\<open>dict\<close> keeps its keys, each once, in the order of insertion: a list of
  key-value pairs with distinct keys. One forecast (and the observed storm) gives its
  track as the two arrays \<^verbatim>\<open>lon\<close> and \<^verbatim>\<open>lat\<close>.
\<close>

record 'd track =
  lon :: 'd
  lat :: 'd

definition dict_keys :: "('k, 'v) alist \<Rightarrow> 'k list" where
  "dict_keys d = map fst (DAList.impl_of d)"

definition dict_get :: "('k, 'v) alist \<Rightarrow> 'k \<Rightarrow> py_error + 'v" where
  "dict_get d k = (case DAList.lookup d k of None \<Rightarrow> Inl KeyError | Some v \<Rightarrow> Inr v)"

section \<open>Spaghetti plot of the AP01 forecasts\<close>

text \<open>
  \<^verbatim>\<open>for i in forecasts_AP01:\<close>
  \<^verbatim>\<open>    forecast_path = plt.plot(forecasts_AP01[i]['lon'], forecasts_AP01[i]['lat'],\<close>
  \<^verbatim>\<open>                             color='cornflowerblue', linewidth=0.5)\<close>

  The loop runs over the keys that are left, with the variable \<open>forecast_path\<close> (unbound
  before the first iteration) and the state of pyplot. The result is the exception
  raised, if any, and the variable and the state where the loop stopped.
\<close>

fun ap01_loop ::
  "(string, 'd track) alist \<Rightarrow> string list \<Rightarrow> ('d, 'c) line2d option \<Rightarrow> ('d, 'c) pyplot
     \<Rightarrow> py_error option \<times> ('d, 'c) line2d option \<times> ('d, 'c) pyplot" where
  "ap01_loop d [] forecast_path s = (None, forecast_path, s)"
| "ap01_loop d (i # rest) forecast_path s =
     (case dict_get d i of
        Inl e \<Rightarrow> (Some e, forecast_path, s)
      | Inr f \<Rightarrow>
          (case dict_get d i of
             Inl e \<Rightarrow> (Some e, forecast_path, s)
           | Inr g \<Rightarrow>
               (case plt_plot (lon f) (lat g) (Named ''cornflowerblue'') (1 / 2) None s of
                  (l, s') \<Rightarrow> ap01_loop d rest (Some l) s')))"

text \<open>
  The cell: the axes, the loop, the true path
  \<^verbatim>\<open>true_path = plt.plot(sandy_ds.lon, sandy_ds.lat, color='k', linewidth=1)\<close>,
  the legend \<^verbatim>\<open>plt.legend([true_path[0], forecast_path[0]], [...])\<close>, which reads
  \<open>forecast_path\<close>, and the title. An exception ends the cell and leaves the state as
  it is then.
\<close>

definition spaghetti_cell ::
  "(string, 'd track) alist \<Rightarrow> 'd track \<Rightarrow> ('d, 'c) pyplot \<Rightarrow> py_error option \<times> ('d, 'c) pyplot" where
  "spaghetti_cell forecasts_AP01 sandy_ds s =
     (case setup_axes s of (ax, s1) \<Rightarrow>
      case ap01_loop forecasts_AP01 (dict_keys forecasts_AP01) None s1 of
        (Some e, forecast_path, s2) \<Rightarrow> (Some e, s2)
      | (None, forecast_path, s2) \<Rightarrow>
          (case plt_plot (lon sandy_ds) (lat sandy_ds) (Named ''k'') 1 None s2 of
             (true_path, s3) \<Rightarrow>
               (case forecast_path of
                  None \<Rightarrow> (Some NameError, s3)
                | Some l \<Rightarrow>
                    (None, plt_title ''Hurricane Sandy (2012)''
                             (plt_legend [''True Path'', ''GFS AP01 Forecasts''] s3)))))"

section \<open>Spaghetti plot with temporal colormapping\<close>

text \<open>
  \<^verbatim>\<open>cmap = mpl.colors.ListedColormap(plt.cm.autumn_r(normalized_times))\<close>: the
  colormap \<^verbatim>\<open>autumn_r\<close>, a function \<open>cm\<close> from the scale to colors, gives one color
  for each normalized time, and these colors are the list of the new colormap.
\<close>

definition ListedColormap :: "(rat \<Rightarrow> 'c) \<Rightarrow> rat list \<Rightarrow> 'c list" where
  "ListedColormap cm ns = map cm ns"

text \<open>
  Calling a listed colormap of \<open>N\<close> colors with an integer \<open>c\<close> gives color \<open>c\<close> of the
  list when \<open>c < N\<close>, and the last color for a larger index; there is no color to give
  when the list is empty.
\<close>

definition cmap_call :: "'c list \<Rightarrow> nat \<Rightarrow> py_error + 'c" where
  "cmap_call colors c =
     (if c < length colors then Inr (colors ! c)
      else if colors = [] then Inl IndexError
      else Inr (last colors))"

text \<open>
  The colormap of the cell, from the keys of \<open>forecasts_AP01\<close>; \<open>strptime\<close> is
  \<^verbatim>\<open>datetime.datetime.strptime(i, '%Y%m%d%H')\<close>, which raises \<^verbatim>\<open>ValueError\<close> for a
  key that is not a time.
\<close>

definition cell_colormap ::
  "(string \<Rightarrow> py_error + datetime) \<Rightarrow> (rat \<Rightarrow> 'c) \<Rightarrow> (string, 'd track) alist
     \<Rightarrow> py_error + 'c list" where
  "cell_colormap strptime cm forecasts_AP01 =
     bind_err (list_comp strptime (dict_keys forecasts_AP01)) (\<lambda>ts.
     bind_err (normalized_times ts) (\<lambda>ns.
       Inr (ListedColormap cm ns)))"

text \<open>
  \<^verbatim>\<open>c = 0\<close>
  \<^verbatim>\<open>for i in forecasts_AP01:\<close>
  \<^verbatim>\<open>    plt.plot(forecasts_AP01[i]['lon'], forecasts_AP01[i]['lat'],\<close>
  \<^verbatim>\<open>             color=cmap(c), linewidth=0.5)\<close>
  \<^verbatim>\<open>    c += 1\<close>

  The loop over the keys that are left, with the counter and the state of pyplot.
\<close>

fun color_loop ::
  "(string, 'd track) alist \<Rightarrow> 'c list \<Rightarrow> string list \<Rightarrow> nat \<Rightarrow> ('d, 'c) pyplot
     \<Rightarrow> py_error option \<times> nat \<times> ('d, 'c) pyplot" where
  "color_loop d cmap [] c s = (None, c, s)"
| "color_loop d cmap (i # rest) c s =
     (case dict_get d i of
        Inl e \<Rightarrow> (Some e, c, s)
      | Inr f \<Rightarrow>
          (case dict_get d i of
             Inl e \<Rightarrow> (Some e, c, s)
           | Inr g \<Rightarrow>
               (case cmap_call cmap c of
                  Inl e \<Rightarrow> (Some e, c, s)
                | Inr col \<Rightarrow>
                    (case plt_plot (lon f) (lat g) (RGBA col) (1 / 2) None s of
                       (l, s') \<Rightarrow> color_loop d cmap rest (c + 1) s'))))"

text \<open>
  The cell up to its title: the axes, the colormap, the loop, the true path
  \<^verbatim>\<open>plt.plot(sandy_ds.lon, sandy_ds.lat, color='red', linewidth=1, label='True Path')\<close>,
  the legend and the title. The colorbar the cell adds after that has an axes of its own.
\<close>

definition temporal_cell ::
  "(string \<Rightarrow> py_error + datetime) \<Rightarrow> (rat \<Rightarrow> 'c) \<Rightarrow> (string, 'd track) alist \<Rightarrow> 'd track
     \<Rightarrow> ('d, 'c) pyplot \<Rightarrow> py_error option \<times> ('d, 'c) pyplot" where
  "temporal_cell strptime cm forecasts_AP01 sandy_ds s =
     (case setup_axes s of (ax, s1) \<Rightarrow>
      case cell_colormap strptime cm forecasts_AP01 of
        Inl e \<Rightarrow> (Some e, s1)
      | Inr cmap \<Rightarrow>
          (case color_loop forecasts_AP01 cmap (dict_keys forecasts_AP01) 0 s1 of
             (Some e, c, s2) \<Rightarrow> (Some e, s2)
           | (None, c, s2) \<Rightarrow>
               (case plt_plot (lon sandy_ds) (lat sandy_ds) (Named ''red'') 1 (Some ''True Path'') s2 of
                  (true_path, s3) \<Rightarrow>
                    (None, plt_title ''Hurricane Sandy'' (plt_legend [''True Path''] s3)))))"

section \<open>The arithmetic of the temporal colormapping cell, as Python evaluates it\<close>





text \<open>
  The values: datetimes and timedeltas as integer counts, floats as the rationals they
  round, integers, lists, and the objects a library returns, which Python's own
  operations here do not look into.
\<close>

datatype 'o py_value =
    PyDatetime int
  | PyTimedelta int
  | PyFloat rat
  | PyInt int
  | PyList "'o py_value list"
  | PyObject 'o









section \<open>A small forecast dictionary\<close>

text \<open>
  Two initializations of one ensemble member, six hours apart, with one track point
  each; \<open>sample_strptime\<close> reads their keys as hours, and an empty figure.
\<close>

definition sample_forecasts :: "(string, int list track) alist" where
  "sample_forecasts =
     DAList.update ''2012102206'' \<lparr>lon = [- 78], lat = [13]\<rparr>
       (DAList.update ''2012102200'' \<lparr>lon = [- 77], lat = [14]\<rparr> DAList.empty)"

definition sample_strptime :: "string \<Rightarrow> py_error + datetime" where
  "sample_strptime i =
     (if i = ''2012102200'' then Inr 0 else if i = ''2012102206'' then Inr 6 else Inl ValueError)"

definition empty_figure :: "(int list, rat) pyplot" where
  "empty_figure = \<lparr>figure_axes = [], current = None\<rparr>"

section \<open>The ensemble member keys\<close>

text \<open>
  C3: \<open>GFS_keys\<close> evaluates to the 20 strings AP01, AP02, ..., AP20, in this order, each
  with a two-digit zero-padded index. The forecast loop runs over \<open>range(20)\<close>, that is
  over the indices 0 to 19, and every subscript \<open>GFS_keys[i]\<close> it evaluates is in
  bounds: no \<open>IndexError\<close> is raised, and the keys read are all of \<open>GFS_keys\<close> in order.
\<close>

theorem GFS_keys_AP01_to_AP20:
  "GFS_keys =
     [''AP01'', ''AP02'', ''AP03'', ''AP04'', ''AP05'', ''AP06'', ''AP07'', ''AP08'', ''AP09'', ''AP10'',
      ''AP11'', ''AP12'', ''AP13'', ''AP14'', ''AP15'', ''AP16'', ''AP17'', ''AP18'', ''AP19'', ''AP20'']
   \<and> length GFS_keys = 20
   \<and> py_range0 20 = [0, 1, 2, 3, 4, 5, 6, 7, 8, 9, 10, 11, 12, 13, 14, 15, 16, 17, 18, 19]
   \<and> forecast_loop_keys = Inr GFS_keys"
  by code_simp

section \<open>The directional labels\<close>

text \<open>
  C9: the label list \<open>etick + wtick\<close> of the polar stereographic cells is the 12 strings
  0, 30E, 60E, 90E, 120E, 150E, 180, 30W, 60W, 90W, 120W, 150W; \<open>xticks\<close> has 12 items
  as well, so the loop over \<open>zip(xticks, yticks, labels)\<close> draws each of the 12 labels at
  one tick longitude and drops none. Exactly one label, 180, is drawn with vertical
  alignment top and exactly one, 0, with vertical alignment bottom.
\<close>

theorem directional_labels_twelve:
  "cell_labels =
     Inr [''0'', ''30E'', ''60E'', ''90E'', ''120E'', ''150E'', ''180'',
          ''30W'', ''60W'', ''90W'', ''120W'', ''150W'']
   \<and> cell_xticks = Inr [0, 30, 60, 90, 120, 150, 180, 210, 240, 270, 300, 330]
   \<and> map_sum id length cell_labels = Inr 12
   \<and> map_sum id length cell_xticks = Inr 12
   \<and> directional_labels =
       Inr (map (\<lambda>(x, l, va). \<lparr>text_x = x, text_y = - 5, text_s = l, fontsize = 12,
                              horizontalalignment = ''center'', verticalalignment = va\<rparr>)
             [(0, ''0'', ''bottom''), (30, ''30E'', ''center''), (60, ''60E'', ''center''),
              (90, ''90E'', ''center''), (120, ''120E'', ''center''), (150, ''150E'', ''center''),
              (180, ''180'', ''top''), (210, ''30W'', ''center''), (240, ''60W'', ''center''),
              (270, ''90W'', ''center''), (300, ''120W'', ''center''), (330, ''150W'', ''center'')])
   \<and> map_sum id (map text_s \<circ> filter (\<lambda>c. verticalalignment c = ''top'')) directional_labels
       = Inr [''180'']
   \<and> map_sum id (map text_s \<circ> filter (\<lambda>c. verticalalignment c = ''bottom'')) directional_labels
       = Inr [''0'']"
  by code_simp

section \<open>The colorbar ticks\<close>

lemma ceiling_minus_half:
  "nat \<lceil>(of_int (y0 + int n) :: rat) - (of_int y0 + 1 / 2)\<rceil> = n"
proof -
  have "(of_int (y0 + int n) :: rat) - (of_int y0 + 1 / 2) = of_int (int n) - 1 / 2"
    by simp
  moreover have "\<lceil>(of_int (int n) :: rat) - 1 / 2\<rceil> = int n"
    by (rule ceiling_unique) auto
  ultimately show ?thesis by simp
qed

lemma tick_positions_eq:
  "tick_positions y0 (y0 + int n) = map (\<lambda>j. of_int y0 + of_nat j + 1 / 2) [0..<n]"
  unfolding tick_positions_def np_arange1_float_def ceiling_minus_half by simp

lemma tick_labels_eq: "tick_labels y0 (y0 + int n) = map (\<lambda>j. y0 + int j) [0..<n]"
  by (simp add: tick_labels_def np_arange1_int_def)

lemma color_box_unit:
  assumes "j < n"
  shows "color_box n (of_int y0) (of_int y0 + of_nat n) j
           = (of_int y0 + of_nat j, of_int y0 + of_nat j + 1)"
proof -
  have n: "(of_nat n :: rat) \<noteq> 0" using assms by simp
  have w: "(of_int y0 + of_nat n :: rat) - of_int y0 = of_nat n" by simp
  show ?thesis
    unfolding color_box_def w using n by (simp add: field_simps)
qed

lemma box_midpoint_unit:
  assumes "j < n"
  shows "box_midpoint n (of_int y0) (of_int y0 + of_nat n) j = of_int y0 + of_nat j + 1 / 2"
  unfolding box_midpoint_def color_box_unit [OF assms] by (simp add: field_simps)

text \<open>
  The precondition of the claim holds when the time coordinate at index \<open>12 * n\<close> lies
  in year \<open>n\<close> after \<open>year_0\<close>, counted in months.
\<close>

lemma year_n_of_months:
  assumes "of_nat (12 * n) \<le> months" "months < of_nat (12 * n + 12)"
  shows "year_n_of year_0 months - year_0 = int n"
proof -
  have "0 \<le> months / 12"
    using assms(1) by (simp add: order_trans [of 0 "of_nat (12 * n)"])
  moreover have "\<lfloor>months / 12\<rfloor> = int n"
    by (rule floor_unique) (use assms in \<open>simp_all add: field_simps\<close>)
  ultimately show ?thesis by (simp add: year_n_of_def astype_int_def)
qed

text \<open>
  C2: with \<open>n\<close> discrete colors, a norm from \<open>year_0\<close> to \<open>year_n\<close> and
  \<open>year_n - year_0 = n\<close>, the \<open>n\<close> color boxes are the unit intervals from \<open>year_0 + j\<close>
  to \<open>year_0 + j + 1\<close>, the tick positions \<open>np.arange(year_0 + 0.5, year_n)\<close> are exactly
  the \<open>n\<close> midpoints of these boxes, the tick labels \<open>np.arange(year_0, year_n)\<close> are as
  many as the tick positions, and \<open>set_ticklabels\<close> puts the integer year \<open>year_0 + j\<close>
  at the midpoint of box \<open>j\<close>. The notebook has \<open>n = 19\<close>.
\<close>

theorem colorbar_ticks_at_midpoints:
  assumes "year_n - year_0 = int n"
  shows "map (color_box n (of_int year_0) (of_int year_n)) [0..<n]
           = map (\<lambda>j. (of_int year_0 + of_nat j, of_int year_0 + of_nat j + 1)) [0..<n]
       \<and> tick_positions year_0 year_n
           = map (box_midpoint n (of_int year_0) (of_int year_n)) [0..<n]
       \<and> length (tick_positions year_0 year_n) = n
       \<and> length (tick_labels year_0 year_n) = length (tick_positions year_0 year_n)
       \<and> colorbar_ticks year_0 year_n
           = Inr (map (\<lambda>j. (box_midpoint n (of_int year_0) (of_int year_n) j, year_0 + int j))
                    [0..<n])"
proof -
  have yn: "year_n = year_0 + int n"
    using assms by simp
  have box: "map (color_box n (of_int year_0) (of_int year_n)) [0..<n]
               = map (\<lambda>j. (of_int year_0 + of_nat j, of_int year_0 + of_nat j + 1)) [0..<n]"
    unfolding yn by (simp add: color_box_unit)
  have pos: "tick_positions year_0 year_n
               = map (box_midpoint n (of_int year_0) (of_int year_n)) [0..<n]"
    unfolding yn tick_positions_eq by (simp add: box_midpoint_unit)
  have lab: "tick_labels year_0 year_n = map (\<lambda>j. year_0 + int j) [0..<n]"
    unfolding yn by (rule tick_labels_eq)
  have "colorbar_ticks year_0 year_n
          = Inr (map (\<lambda>j. (box_midpoint n (of_int year_0) (of_int year_n) j, year_0 + int j))
                   [0..<n])"
    unfolding colorbar_ticks_def set_ticklabels_def pos lab
    by (simp add: zip_map_map zip_same_conv_map)
  with box pos lab show ?thesis by simp
qed

theorem colorbar_ticks_at_midpoints_witness:
  "(1977 :: int) - 1958 = int 19
   \<and> map (color_box 19 (of_int 1958) (of_int 1977)) [0..<19]
       = map (\<lambda>j. (of_int 1958 + of_nat j, of_int 1958 + of_nat j + 1)) [0..<19]
   \<and> tick_positions 1958 1977 = map (box_midpoint 19 (of_int 1958) (of_int 1977)) [0..<19]
   \<and> length (tick_positions 1958 1977) = 19
   \<and> length (tick_labels 1958 1977) = length (tick_positions 1958 1977)
   \<and> colorbar_ticks 1958 1977
       = Inr (map (\<lambda>j. (box_midpoint 19 (of_int 1958) (of_int 1977) j, 1958 + int j)) [0..<19])"
  using colorbar_ticks_at_midpoints [of 1977 1958 19] by simp

section \<open>The normalized times\<close>

lemma list_comp_all_Inr:
  assumes "\<And>x. x \<in> set xs \<Longrightarrow> f x = Inr (g x)"
  shows "list_comp f xs = Inr (map g xs)"
  using assms by (induction xs) (simp_all add: bind_err_def)

lemma list_comp_first_Inl:
  assumes "f x = Inl e"
  shows "list_comp f (x # xs) = Inl e"
  using assms by (simp add: bind_err_def)

lemma py_index_first: "ts \<noteq> [] \<Longrightarrow> py_index ts 0 = Inr (hd ts)"
  by (cases ts) (simp_all add: py_index_def)

lemma py_index_final: "ts \<noteq> [] \<Longrightarrow> py_index ts (- 1) = Inr (last ts)"
proof -
  assume ne: "ts \<noteq> []"
  then have len: "0 < length ts" by simp
  then have "nat (int (length ts) + - 1) = length ts - 1" by simp
  with len show ?thesis
    by (simp add: py_index_def last_conv_nth [OF ne] Suc_le_eq)
qed

lemma normalize_time_nonempty:
  assumes "ts \<noteq> []"
  shows "normalize_time ts i = timedelta_truediv (i - hd ts) (last ts - hd ts)"
  by (simp add: normalize_time_def py_index_first [OF assms] py_index_final [OF assms] bind_err_def)

lemma normalized_times_ok:
  assumes "ts \<noteq> []" "hd ts \<noteq> last ts"
  shows "normalized_times ts = Inr (map (\<lambda>i. of_int (i - hd ts) / of_int (last ts - hd ts)) ts)"
  unfolding normalized_times_def
  by (rule list_comp_all_Inr)
     (use assms in \<open>simp add: normalize_time_nonempty timedelta_truediv_def\<close>)

lemma normalized_times_zero_div:
  assumes "ts \<noteq> []" "hd ts = last ts"
  shows "normalized_times ts = Inl ZeroDivisionError"
proof -
  obtain t rest where ts: "ts = t # rest" using assms(1) by (cases ts) auto
  have "normalize_time ts t = Inl ZeroDivisionError"
    using assms by (simp add: normalize_time_nonempty timedelta_truediv_def)
  then show ?thesis
    unfolding normalized_times_def by (subst (2) ts) (rule list_comp_first_Inl)
qed

lemma list_comp_length:
  "list_comp f xs = Inr ys \<Longrightarrow> length ys = length xs"
  by (induction xs arbitrary: ys) (auto simp: bind_err_def split: sum.splits)

text \<open>
  C7: for a list \<open>times\<close> of at least two datetimes whose first and last items differ,
  the normalization \<open>(i - times[0]) / (times[-1] - times[0])\<close> is defined for every item
  (no exception), sends the first item to 0 and the last to 1, keeps every value between
  0 and 1 when \<open>times\<close> is nondecreasing, and is monotone in its input: it preserves the
  order of the times when the first item is before the last, and reverses it otherwise.
  When \<open>times\<close> has one item only, or its first and last items are equal, the divisor
  is zero and the computation raises \<open>ZeroDivisionError\<close>.
\<close>

theorem normalized_times_range:
  "(2 \<le> length ts \<and> hd ts \<noteq> last ts \<longrightarrow>
      (\<exists>ns. normalized_times ts = Inr ns
         \<and> length ns = length ts
         \<and> ns ! 0 = 0 \<and> last ns = 1
         \<and> (sorted ts \<longrightarrow> (\<forall>x \<in> set ns. 0 \<le> x \<and> x \<le> 1))
         \<and> (\<forall>i < length ts. \<forall>j < length ts. ts ! i \<le> ts ! j \<longrightarrow>
               (if hd ts < last ts then ns ! i \<le> ns ! j else ns ! j \<le> ns ! i))))
   \<and> (length ts = 1 \<or> (ts \<noteq> [] \<and> hd ts = last ts) \<longrightarrow>
        normalized_times ts = Inl ZeroDivisionError)"
proof (intro conjI impI)
  assume a: "2 \<le> length ts \<and> hd ts \<noteq> last ts"
  then have ne: "ts \<noteq> []" and diff: "hd ts \<noteq> last ts" by auto
  define d :: rat where "d = of_int (last ts - hd ts)"
  define ns where "ns = map (\<lambda>i. of_int (i - hd ts) / d) ts"
  have d0: "d \<noteq> 0" using diff by (simp add: d_def)
  have res: "normalized_times ts = Inr ns"
    unfolding ns_def d_def by (rule normalized_times_ok [OF ne diff])
  have len: "length ns = length ts" by (simp add: ns_def)
  have nth: "ns ! i = of_int (ts ! i - hd ts) / d" if "i < length ts" for i
    using that by (simp add: ns_def)
  have first: "ns ! 0 = 0"
    using ne nth [of 0] by (simp add: hd_conv_nth)
  have "last ns = of_int (last ts - hd ts) / d"
    using ne by (simp add: ns_def last_map)
  then have final: "last ns = 1" using d0 by (simp add: d_def)
  have bounds: "\<forall>x \<in> set ns. 0 \<le> x \<and> x \<le> 1" if srt: "sorted ts"
  proof
    fix x assume "x \<in> set ns"
    then obtain t where t: "t \<in> set ts" and x: "x = of_int (t - hd ts) / d"
      by (auto simp: ns_def)
    have lo: "hd ts \<le> t"
      using srt t ne by (cases ts) auto
    have hi: "t \<le> last ts"
    proof -
      obtain k where k: "k < length ts" and tk: "ts ! k = t"
        using t by (auto simp: in_set_conv_nth)
      have "ts ! k \<le> ts ! (length ts - 1)"
        using srt k by (intro sorted_nth_mono) auto
      then show ?thesis
        using tk ne by (simp add: last_conv_nth)
    qed
    have dpos: "0 < d" using lo hi diff by (simp add: d_def)
    have "(of_int (t - hd ts) :: rat) \<le> d" using hi by (simp add: d_def)
    moreover have "0 \<le> (of_int (t - hd ts) :: rat)" using lo by simp
    ultimately show "0 \<le> x \<and> x \<le> 1" using dpos by (simp add: x)
  qed
  have mono: "\<forall>i < length ts. \<forall>j < length ts. ts ! i \<le> ts ! j \<longrightarrow>
               (if hd ts < last ts then ns ! i \<le> ns ! j else ns ! j \<le> ns ! i)"
  proof (intro allI impI)
    fix i j assume i: "i < length ts" and j: "j < length ts" and le: "ts ! i \<le> ts ! j"
    have num: "(of_int (ts ! i - hd ts) :: rat) \<le> of_int (ts ! j - hd ts)"
      using le by simp
    show "if hd ts < last ts then ns ! i \<le> ns ! j else ns ! j \<le> ns ! i"
    proof (cases "hd ts < last ts")
      case True
      then have "0 < d" by (simp add: d_def)
      then show ?thesis using True num by (simp add: nth i j divide_right_mono)
    next
      case False
      then have "d < 0" using diff by (simp add: d_def)
      then show ?thesis using False num by (simp add: nth i j divide_right_mono_neg)
    qed
  qed
  show "\<exists>ns. normalized_times ts = Inr ns
         \<and> length ns = length ts
         \<and> ns ! 0 = 0 \<and> last ns = 1
         \<and> (sorted ts \<longrightarrow> (\<forall>x \<in> set ns. 0 \<le> x \<and> x \<le> 1))
         \<and> (\<forall>i < length ts. \<forall>j < length ts. ts ! i \<le> ts ! j \<longrightarrow>
               (if hd ts < last ts then ns ! i \<le> ns ! j else ns ! j \<le> ns ! i))"
    using res len first final bounds mono by blast
next
  assume "length ts = 1 \<or> (ts \<noteq> [] \<and> hd ts = last ts)"
  then have "ts \<noteq> [] \<and> hd ts = last ts"
    by (cases ts) auto
  then show "normalized_times ts = Inl ZeroDivisionError"
    by (simp add: normalized_times_zero_div)
qed

theorem normalized_times_range_witness:
  "2 \<le> length [0, 6, 12, 24 :: int] \<and> hd [0, 6, 12, 24 :: int] \<noteq> last [0, 6, 12, 24]
   \<and> sorted [0, 6, 12, 24 :: int]
   \<and> normalized_times [0, 6, 12, 24] = Inr [0, 1 / 4, 1 / 2, 1]
   \<and> (\<exists>ns. normalized_times [0, 6, 12, 24] = Inr ns \<and> length ns = 4 \<and> ns ! 0 = 0 \<and> last ns = 1
          \<and> list_all (\<lambda>x. 0 \<le> x \<and> x \<le> 1) ns \<and> ns ! 1 \<le> ns ! 2)
   \<and> 2 \<le> length [24, 6, 0 :: int] \<and> hd [24, 6, 0 :: int] \<noteq> last [24, 6, 0]
   \<and> normalized_times [24, 6, 0] = Inr [0, 3 / 4, 1]
   \<and> length [5 :: int] = 1
   \<and> normalized_times [5] = Inl ZeroDivisionError"
proof -
  have eval1: "normalized_times [0, 6, 12, 24] = Inr [0, 1 / 4, 1 / 2, 1]"
    by (simp add: normalized_times_def normalize_time_def py_index_def timedelta_truediv_def
        bind_err_def)
  have eval2: "normalized_times [24, 6, 0] = Inr [0, 3 / 4, 1]"
    by (simp add: normalized_times_def normalize_time_def py_index_def timedelta_truediv_def
        bind_err_def)
  show ?thesis
    using normalized_times_range [of "[0, 6, 12, 24]"] normalized_times_range [of "[5]"]
      normalized_times_range [of "[24, 6, 0]"]
    unfolding eval1 eval2 by (simp add: list_all_iff)
qed

section \<open>Lines on the current axes\<close>

lemma dict_get_key:
  assumes "k \<in> set (dict_keys d)"
  shows "\<exists>v. dict_get d k = Inr v \<and> (k, v) \<in> set (DAList.impl_of d)"
proof -
  from assms obtain v where kv: "(k, v) \<in> set (DAList.impl_of d)"
    by (auto simp: dict_keys_def)
  then have "DAList.lookup d k = Some v"
    by (simp add: DAList.lookup.rep_eq)
  with kv show ?thesis by (simp add: dict_get_def)
qed

lemma setup_axes_eq:
  "setup_axes s =
     (length (figure_axes s),
      s\<lparr>figure_axes := figure_axes s @
           [\<lparr>projection = ''PlateCarree'', artists = [''LAND'', ''gridlines''], lines = [],
             legend = None, title = []\<rparr>],
        current := Some (length (figure_axes s))\<rparr>)"
  by (simp add: setup_axes_def plt_axes_def add_artist_def on_axes_def)

lemma plt_plot_current:
  assumes "figure_axes s = pre @ [a]" "current s = Some (length pre)"
  shows "plt_plot x y c lw lab s =
           (\<lparr>xdata = x, ydata = y, color = c, linewidth = lw, line_label = lab\<rparr>,
            s\<lparr>figure_axes := pre @ [a\<lparr>lines := lines a @
                 [\<lparr>xdata = x, ydata = y, color = c, linewidth = lw, line_label = lab\<rparr>]\<rparr>]\<rparr>)"
  using assms by (simp add: plt_plot_def gca_def on_axes_def Let_def)

lemma plt_legend_current:
  assumes "figure_axes s = pre @ [a]" "current s = Some (length pre)"
  shows "plt_legend labs s = s\<lparr>figure_axes := pre @ [a\<lparr>legend := Some labs\<rparr>]\<rparr>"
  using assms by (simp add: plt_legend_def gca_def on_axes_def)

lemma plt_title_current:
  assumes "figure_axes s = pre @ [a]" "current s = Some (length pre)"
  shows "plt_title t s = s\<lparr>figure_axes := pre @ [a\<lparr>title := t\<rparr>]\<rparr>"
  using assms by (simp add: plt_title_def gca_def on_axes_def)

lemma ap01_loop_lines:
  assumes "set ks \<subseteq> set (dict_keys d)"
      and "figure_axes s = pre @ [a]" and "current s = Some (length pre)"
  shows "\<exists>fp'. ap01_loop d ks fp s =
           (None, fp',
            s\<lparr>figure_axes := pre @ [a\<lparr>lines := lines a @
               map (\<lambda>k. \<lparr>xdata = lon (the (DAList.lookup d k)), ydata = lat (the (DAList.lookup d k)),
                         color = Named ''cornflowerblue'', linewidth = 1 / 2, line_label = None\<rparr>) ks\<rparr>]\<rparr>)
         \<and> (fp' = None \<longleftrightarrow> fp = None \<and> ks = [])"
  using assms
proof (induction ks arbitrary: fp s a)
  case Nil
  then show ?case by simp
next
  case (Cons k ks)
  from Cons.prems(1) obtain v where v: "dict_get d k = Inr v" "DAList.lookup d k = Some v"
    using dict_get_key [of k d] by (auto simp: dict_get_def split: option.splits)
  define l :: "('a, 'b) line2d" where
    "l = \<lparr>xdata = lon v, ydata = lat v, color = Named ''cornflowerblue'', linewidth = 1 / 2,
          line_label = None\<rparr>"
  define s' where "s' = s\<lparr>figure_axes := pre @ [a\<lparr>lines := lines a @ [l]\<rparr>]\<rparr>"
  have step: "plt_plot (lon v) (lat v) (Named ''cornflowerblue'') (1 / 2) None s = (l, s')"
    unfolding l_def s'_def by (rule plt_plot_current [OF Cons.prems(2,3)])
  have unfold: "ap01_loop d (k # ks) fp s = ap01_loop d ks (Some l) s'"
    by (simp add: v step)
  have "set ks \<subseteq> set (dict_keys d)" using Cons.prems(1) by simp
  moreover have "figure_axes s' = pre @ [a\<lparr>lines := lines a @ [l]\<rparr>]" by (simp add: s'_def)
  moreover have "current s' = Some (length pre)" using Cons.prems(3) by (simp add: s'_def)
  ultimately obtain fp' where
    "ap01_loop d ks (Some l) s' =
       (None, fp',
        s'\<lparr>figure_axes := pre @ [a\<lparr>lines := lines a @ [l]\<rparr>\<lparr>lines := lines (a\<lparr>lines := lines a @ [l]\<rparr>) @
           map (\<lambda>k. \<lparr>xdata = lon (the (DAList.lookup d k)), ydata = lat (the (DAList.lookup d k)),
                     color = Named ''cornflowerblue'', linewidth = 1 / 2, line_label = None\<rparr>) ks\<rparr>]\<rparr>)"
    and "fp' = None \<longleftrightarrow> Some l = None \<and> ks = []"
    using Cons.IH [of s' "a\<lparr>lines := lines a @ [l]\<rparr>" "Some l"] by blast
  then show ?case
    unfolding unfold by (simp add: s'_def l_def v)
qed

lemma color_loop_lines:
  assumes "set ks \<subseteq> set (dict_keys d)" and "c + length ks \<le> length cmap"
      and "figure_axes s = pre @ [a]" and "current s = Some (length pre)"
  shows "color_loop d cmap ks c s =
           (None, c + length ks,
            s\<lparr>figure_axes := pre @ [a\<lparr>lines := lines a @
               map2 (\<lambda>j k. \<lparr>xdata = lon (the (DAList.lookup d k)), ydata = lat (the (DAList.lookup d k)),
                         color = RGBA (cmap ! j), linewidth = 1 / 2, line_label = None\<rparr>)
                 [c..<c + length ks] ks\<rparr>]\<rparr>)"
  using assms
proof (induction ks arbitrary: c s a)
  case Nil
  then show ?case by simp
next
  case (Cons k ks)
  from Cons.prems(1) obtain v where v: "dict_get d k = Inr v" "DAList.lookup d k = Some v"
    using dict_get_key [of k d] by (auto simp: dict_get_def split: option.splits)
  have col: "cmap_call cmap c = Inr (cmap ! c)"
    using Cons.prems(2) by (simp add: cmap_call_def)
  define l :: "('a, 'b) line2d" where
    "l = \<lparr>xdata = lon v, ydata = lat v, color = RGBA (cmap ! c), linewidth = 1 / 2,
          line_label = None\<rparr>"
  define s' where "s' = s\<lparr>figure_axes := pre @ [a\<lparr>lines := lines a @ [l]\<rparr>]\<rparr>"
  have step: "plt_plot (lon v) (lat v) (RGBA (cmap ! c)) (1 / 2) None s = (l, s')"
    unfolding l_def s'_def by (rule plt_plot_current [OF Cons.prems(3,4)])
  have unfold: "color_loop d cmap (k # ks) c s = color_loop d cmap ks (c + 1) s'"
    by (simp add: v col step)
  have range: "[c..<c + length (k # ks)] = c # [c + 1..<c + 1 + length ks]"
    by (simp add: upt_rec)
  have "set ks \<subseteq> set (dict_keys d)" using Cons.prems(1) by simp
  moreover have "c + 1 + length ks \<le> length cmap" using Cons.prems(2) by simp
  moreover have "figure_axes s' = pre @ [a\<lparr>lines := lines a @ [l]\<rparr>]" by (simp add: s'_def)
  moreover have "current s' = Some (length pre)" using Cons.prems(4) by (simp add: s'_def)
  ultimately have
    "color_loop d cmap ks (c + 1) s' =
       (None, c + 1 + length ks,
        s'\<lparr>figure_axes := pre @ [a\<lparr>lines := lines a @ [l]\<rparr>\<lparr>lines := lines (a\<lparr>lines := lines a @ [l]\<rparr>) @
           map2 (\<lambda>j k. \<lparr>xdata = lon (the (DAList.lookup d k)), ydata = lat (the (DAList.lookup d k)),
                     color = RGBA (cmap ! j), linewidth = 1 / 2, line_label = None\<rparr>)
             [c + 1..<c + 1 + length ks] ks\<rparr>]\<rparr>)"
    by (rule Cons.IH)
  then show ?case
    unfolding unfold range by (simp add: s'_def l_def v)
qed

lemma items_by_key:
  "map (\<lambda>k. g k (the (DAList.lookup d k))) (dict_keys d) = map (\<lambda>(k, v). g k v) (DAList.impl_of d)"
  unfolding dict_keys_def map_map
  by (rule map_cong) (auto simp: DAList.lookup.rep_eq)

lemma setup_axes_shape:
  obtains a where "setup_axes s = (length (figure_axes s), s\<lparr>figure_axes := figure_axes s @ [a], current := Some (length (figure_axes s))\<rparr>)"
    and "lines a = []"
  using setup_axes_eq [of s] by (metis axes.select_convs(3))

lemma map2_items:
  assumes "\<And>k f. (k, f) \<in> set items \<Longrightarrow> DAList.lookup d k = Some f"
  shows "map2 (\<lambda>j k. g j (the (DAList.lookup d k))) js (map fst items)
           = map2 (\<lambda>j (k, f). g j f) js items"
  unfolding zip_map2 map_map
  by (rule map_cong [OF refl]) (auto dest!: set_zip_rightD assms)

section \<open>The spaghetti plot of one ensemble member\<close>

text \<open>
  C4: in the spaghetti-plot cell the axes are created once, before the loop. For every
  dictionary \<open>forecasts_AP01\<close>, the loop raises nothing, creates no axes and plots
  one line for each key, in the order of the keys, on the axes of the cell; the true
  path is plotted on the same axes after that. At the end of the cell the figure has
  one axes more than before, the other axes are as they were, and the new axes holds
  the \<open>k\<close> forecast lines followed by the true path: \<open>k + 1\<close> lines. (The
  legend, which reads the variable set in the loop, raises \<open>NameError\<close> when the
  dictionary has no key; the lines are on the axes by then.)
\<close>

theorem spaghetti_cell_overlay:
  fixes forecasts_AP01 :: "(string, 'd track) alist" and s :: "('d, 'c) pyplot"
  shows
  "(case setup_axes s of (ax, s1) \<Rightarrow>
      case ap01_loop forecasts_AP01 (dict_keys forecasts_AP01) None s1 of (err, forecast_path, s2) \<Rightarrow>
        err = None
        \<and> length (figure_axes s1) = length (figure_axes s) + 1
        \<and> length (figure_axes s2) = length (figure_axes s1)
        \<and> lines (figure_axes s2 ! ax) =
            map (\<lambda>(k, f). \<lparr>xdata = lon f, ydata = lat f, color = Named ''cornflowerblue'',
                             linewidth = 1 / 2, line_label = None\<rparr>)
              (DAList.impl_of forecasts_AP01))
   \<and> (case spaghetti_cell forecasts_AP01 sandy_ds s of (err, s') \<Rightarrow>
        err = (if dict_keys forecasts_AP01 = [] then Some NameError else None)
        \<and> length (figure_axes s') = length (figure_axes s) + 1
        \<and> take (length (figure_axes s)) (figure_axes s') = figure_axes s
        \<and> lines (last (figure_axes s')) =
            map (\<lambda>(k, f). \<lparr>xdata = lon f, ydata = lat f, color = Named ''cornflowerblue'',
                             linewidth = 1 / 2, line_label = None\<rparr>)
              (DAList.impl_of forecasts_AP01)
            @ [\<lparr>xdata = lon sandy_ds, ydata = lat sandy_ds, color = Named ''k'', linewidth = 1,
                 line_label = None\<rparr>]
        \<and> length (lines (last (figure_axes s'))) = length (dict_keys forecasts_AP01) + 1)"
proof -
  let ?d = forecasts_AP01
  let ?n = "length (figure_axes s)"
  obtain a where init: "setup_axes s = (?n, s\<lparr>figure_axes := figure_axes s @ [a], current := Some ?n\<rparr>)"
    and a: "lines a = []"
    by (rule setup_axes_shape)
  define s1 where "s1 = s\<lparr>figure_axes := figure_axes s @ [a], current := Some ?n\<rparr>"
  let ?fl = "map (\<lambda>(k, f). \<lparr>xdata = lon f, ydata = lat f, color = Named ''cornflowerblue'',
                             linewidth = 1 / 2, line_label = None\<rparr> :: ('d, 'c) line2d)
              (DAList.impl_of ?d)"
  have fig1: "figure_axes s1 = figure_axes s @ [a]" and cur1: "current s1 = Some ?n"
    by (simp_all add: s1_def)
  obtain fp where loop: "ap01_loop ?d (dict_keys ?d) None s1 =
      (None, fp, s1\<lparr>figure_axes := figure_axes s @ [a\<lparr>lines := lines a @
         map (\<lambda>k. \<lparr>xdata = lon (the (DAList.lookup ?d k)), ydata = lat (the (DAList.lookup ?d k)),
                   color = Named ''cornflowerblue'', linewidth = 1 / 2, line_label = None\<rparr>)
           (dict_keys ?d)\<rparr>]\<rparr>)"
    and fp: "fp = None \<longleftrightarrow> dict_keys ?d = []"
    using ap01_loop_lines [OF subset_refl fig1 cur1, of ?d None] by auto
  have vals: "map (\<lambda>k. \<lparr>xdata = lon (the (DAList.lookup ?d k)), ydata = lat (the (DAList.lookup ?d k)),
                   color = Named ''cornflowerblue'', linewidth = 1 / 2, line_label = None\<rparr> :: ('d, 'c) line2d)
           (dict_keys ?d) = ?fl"
    by (rule items_by_key [of "\<lambda>k f. \<lparr>xdata = lon f, ydata = lat f, color = Named ''cornflowerblue'',
                             linewidth = 1 / 2, line_label = None\<rparr>"])
  define s2 where "s2 = s1\<lparr>figure_axes := figure_axes s @ [a\<lparr>lines := ?fl\<rparr>]\<rparr>"
  have loop': "ap01_loop ?d (dict_keys ?d) None s1 = (None, fp, s2)"
    unfolding loop vals s2_def by (simp add: a)
  have fig2: "figure_axes s2 = figure_axes s @ [a\<lparr>lines := ?fl\<rparr>]" and cur2: "current s2 = Some ?n"
    by (simp_all add: s2_def s1_def)
  have part1: "case setup_axes s of (ax, s1) \<Rightarrow>
      case ap01_loop ?d (dict_keys ?d) None s1 of (err, forecast_path, s2) \<Rightarrow>
        err = None
        \<and> length (figure_axes s1) = length (figure_axes s) + 1
        \<and> length (figure_axes s2) = length (figure_axes s1)
        \<and> lines (figure_axes s2 ! ax) = ?fl"
    unfolding init s1_def [symmetric] by (simp add: loop' fig1 fig2)
  let ?tl = "\<lparr>xdata = lon sandy_ds, ydata = lat sandy_ds, color = Named ''k'', linewidth = 1,
                 line_label = None\<rparr> :: ('d, 'c) line2d"
  define s3 where "s3 = s2\<lparr>figure_axes := figure_axes s @ [a\<lparr>lines := ?fl @ [?tl]\<rparr>]\<rparr>"
  have plot: "plt_plot (lon sandy_ds) (lat sandy_ds) (Named ''k'') 1 None s2 = (?tl, s3)"
    unfolding s3_def using plt_plot_current [OF fig2 cur2] by simp
  have fig3: "figure_axes s3 = figure_axes s @ [a\<lparr>lines := ?fl @ [?tl]\<rparr>]" and cur3: "current s3 = Some ?n"
    by (simp_all add: s3_def cur2)
  have legend: "plt_legend labs s3 = s3\<lparr>figure_axes := figure_axes s @ [a\<lparr>lines := ?fl @ [?tl], legend := Some labs\<rparr>]\<rparr>" for labs
    using plt_legend_current [OF fig3 cur3] by simp
  have title: "plt_title t (plt_legend labs s3) =
      s3\<lparr>figure_axes := figure_axes s @ [a\<lparr>lines := ?fl @ [?tl], legend := Some labs, title := t\<rparr>]\<rparr>" for t labs
    unfolding legend by (subst plt_title_current [where pre = "figure_axes s"]) (simp_all add: cur3)
  have cell: "spaghetti_cell ?d sandy_ds s =
      (case fp of None \<Rightarrow> (Some NameError, s3)
       | Some l \<Rightarrow> (None, plt_title ''Hurricane Sandy (2012)''
                             (plt_legend [''True Path'', ''GFS AP01 Forecasts''] s3)))"
    unfolding spaghetti_cell_def init s1_def [symmetric] by (simp add: loop' plot)
  have part2: "case spaghetti_cell ?d sandy_ds s of (err, s') \<Rightarrow>
        err = (if dict_keys ?d = [] then Some NameError else None)
        \<and> length (figure_axes s') = length (figure_axes s) + 1
        \<and> take (length (figure_axes s)) (figure_axes s') = figure_axes s
        \<and> lines (last (figure_axes s')) = ?fl @ [?tl]
        \<and> length (lines (last (figure_axes s'))) = length (dict_keys ?d) + 1"
  proof (cases fp)
    case None
    then show ?thesis
      unfolding cell using fp by (simp add: fig3 dict_keys_def)
  next
    case (Some l)
    then show ?thesis
      unfolding cell title using fp by (simp add: dict_keys_def)
  qed
  from part1 part2 show ?thesis by (rule conjI)
qed

section \<open>The counter of the temporal colormapping loop\<close>

lemma color_loop_append:
  "color_loop d cmap (xs @ ys) c s =
     (case color_loop d cmap xs c s of
        (None, c', s') \<Rightarrow> color_loop d cmap ys c' s'
      | (Some e, c', s') \<Rightarrow> (Some e, c', s'))"
  by (induction xs arbitrary: c s) (auto split: sum.splits prod.splits option.splits)

lemma cell_colormap_Inr:
  assumes "cell_colormap strptime cm d = Inr cmap"
  obtains ts ns where "list_comp strptime (dict_keys d) = Inr ts"
    and "normalized_times ts = Inr ns" and "cmap = ListedColormap cm ns"
    and "length ns = length (dict_keys d)"
proof -
  from assms obtain ts ns where ts: "list_comp strptime (dict_keys d) = Inr ts"
    and ns: "normalized_times ts = Inr ns" and cmap: "cmap = ListedColormap cm ns"
    by (auto simp: cell_colormap_def bind_err_def split: sum.splits)
  have "length ns = length ts"
    using ns by (simp add: normalized_times_def list_comp_length)
  also have "\<dots> = length (dict_keys d)"
    using ts by (rule list_comp_length)
  finally show ?thesis using that ts ns cmap by blast
qed

lemma temporal_cell_lines:
  fixes forecasts_AP01 :: "(string, 'd track) alist" and cmap :: "'c list"
    and s :: "('d, 'c) pyplot"
  assumes "cell_colormap strptime cm forecasts_AP01 = Inr cmap"
  shows "case temporal_cell strptime cm forecasts_AP01 sandy_ds s of (err, s') \<Rightarrow>
           err = None
           \<and> length (figure_axes s') = length (figure_axes s) + 1
           \<and> lines (last (figure_axes s')) =
               map2 (\<lambda>j (k, f). \<lparr>xdata = lon f, ydata = lat f, color = RGBA (cmap ! j),
                                   linewidth = 1 / 2, line_label = None\<rparr>)
                 [0..<length (dict_keys forecasts_AP01)] (DAList.impl_of forecasts_AP01)
               @ [\<lparr>xdata = lon sandy_ds, ydata = lat sandy_ds, color = Named ''red'',
                    linewidth = 1, line_label = Some ''True Path''\<rparr>]"
proof -
  let ?d = forecasts_AP01
  let ?n = "length (figure_axes s)"
  let ?k = "length (dict_keys ?d)"
  obtain ts ns where "cmap = ListedColormap cm ns" and "length ns = ?k"
    using assms by (rule cell_colormap_Inr)
  then have len: "0 + ?k \<le> length cmap"
    by (simp add: ListedColormap_def)
  obtain a where init: "setup_axes s = (?n, s\<lparr>figure_axes := figure_axes s @ [a], current := Some ?n\<rparr>)"
    and a: "lines a = []"
    by (rule setup_axes_shape)
  define s1 where "s1 = s\<lparr>figure_axes := figure_axes s @ [a], current := Some ?n\<rparr>"
  have fig1: "figure_axes s1 = figure_axes s @ [a]" and cur1: "current s1 = Some ?n"
    by (simp_all add: s1_def)
  let ?cl = "map2 (\<lambda>j (k, f). \<lparr>xdata = lon f, ydata = lat f, color = RGBA (cmap ! j),
                                   linewidth = 1 / 2, line_label = None\<rparr> :: ('d, 'c) line2d)
                 [0..<?k] (DAList.impl_of ?d)"
  have "map2 (\<lambda>j k. \<lparr>xdata = lon (the (DAList.lookup ?d k)), ydata = lat (the (DAList.lookup ?d k)),
                         color = RGBA (cmap ! j), linewidth = 1 / 2, line_label = None\<rparr> :: ('d, 'c) line2d)
                 [0..<?k] (map fst (DAList.impl_of ?d)) = ?cl"
    by (rule map2_items [where g = "\<lambda>j f. \<lparr>xdata = lon f, ydata = lat f, color = RGBA (cmap ! j),
                                      linewidth = 1 / 2, line_label = None\<rparr>"])
       (simp add: DAList.lookup.rep_eq)
  then have cl: "map2 (\<lambda>j k. \<lparr>xdata = lon (the (DAList.lookup ?d k)), ydata = lat (the (DAList.lookup ?d k)),
                         color = RGBA (cmap ! j), linewidth = 1 / 2, line_label = None\<rparr> :: ('d, 'c) line2d)
                 [0..<0 + ?k] (dict_keys ?d) = ?cl"
    by (simp add: dict_keys_def)
  define s2 where "s2 = s1\<lparr>figure_axes := figure_axes s @ [a\<lparr>lines := ?cl\<rparr>]\<rparr>"
  have loop: "color_loop ?d cmap (dict_keys ?d) 0 s1 = (None, ?k, s2)"
    using color_loop_lines [OF subset_refl len fig1 cur1] unfolding cl by (simp add: s2_def a)
  have fig2: "figure_axes s2 = figure_axes s @ [a\<lparr>lines := ?cl\<rparr>]" and cur2: "current s2 = Some ?n"
    by (simp_all add: s2_def s1_def)
  let ?tl = "\<lparr>xdata = lon sandy_ds, ydata = lat sandy_ds, color = Named ''red'', linewidth = 1,
               line_label = Some ''True Path''\<rparr> :: ('d, 'c) line2d"
  define s3 where "s3 = s2\<lparr>figure_axes := figure_axes s @ [a\<lparr>lines := ?cl @ [?tl]\<rparr>]\<rparr>"
  have plot: "plt_plot (lon sandy_ds) (lat sandy_ds) (Named ''red'') 1 (Some ''True Path'') s2 = (?tl, s3)"
    unfolding s3_def using plt_plot_current [OF fig2 cur2] by simp
  have fig3: "figure_axes s3 = figure_axes s @ [a\<lparr>lines := ?cl @ [?tl]\<rparr>]" and cur3: "current s3 = Some ?n"
    by (simp_all add: s3_def cur2)
  have legend: "plt_legend labs s3 = s3\<lparr>figure_axes := figure_axes s @ [a\<lparr>lines := ?cl @ [?tl], legend := Some labs\<rparr>]\<rparr>" for labs
    using plt_legend_current [OF fig3 cur3] by simp
  have title: "plt_title t (plt_legend labs s3) =
      s3\<lparr>figure_axes := figure_axes s @ [a\<lparr>lines := ?cl @ [?tl], legend := Some labs, title := t\<rparr>]\<rparr>" for t labs
    unfolding legend by (subst plt_title_current [where pre = "figure_axes s"]) (simp_all add: cur3)
  have "temporal_cell strptime cm ?d sandy_ds s =
      (None, plt_title ''Hurricane Sandy'' (plt_legend [''True Path''] s3))"
    unfolding temporal_cell_def init s1_def [symmetric] by (simp add: assms loop plot)
  then show ?thesis
    unfolding title by simp
qed

lemma sample_items:
  "DAList.impl_of sample_forecasts =
     [(''2012102200'', \<lparr>lon = [- 77], lat = [14]\<rparr>), (''2012102206'', \<lparr>lon = [- 78], lat = [13]\<rparr>)]"
  by (simp add: sample_forecasts_def DAList.update.rep_eq DAList.empty.rep_eq)

lemma sample_keys: "dict_keys sample_forecasts = [''2012102200''] @ [''2012102206'']"
  by (simp add: dict_keys_def sample_items)

lemma sample_colormap:
  "cell_colormap sample_strptime (\<lambda>x. x) sample_forecasts = Inr [0, 1]"
  by (simp add: cell_colormap_def sample_keys [simplified] sample_strptime_def bind_err_def
      normalized_times_def normalize_time_def py_index_def timedelta_truediv_def
      ListedColormap_def)

text \<open>
  C8: when the colormap of the cell is built (every key is read as a time and the
  normalization raises nothing), it has exactly one color for each key of
  \<open>forecasts_AP01\<close>. At any point of the loop, with the keys \<open>seen\<close> done and the keys
  \<open>rest\<close> to come, the loop has raised nothing, the counter \<open>c\<close> is the number of keys
  done, which is the number of forecast lines drawn so far, and the line of the j-th key
  has the j-th color of the colormap. If a key is left, \<open>c\<close> is below the size of the
  colormap and \<open>cmap(c)\<close> is its color \<open>c\<close>; at the end \<open>c\<close> is the size of the
  colormap. So the whole cell draws key \<open>j\<close> with color \<open>j\<close>, and then the true path.
\<close>

theorem color_loop_counter:
  fixes forecasts_AP01 :: "(string, 'd track) alist" and cmap :: "'c list"
    and s :: "('d, 'c) pyplot"
  assumes "cell_colormap strptime cm forecasts_AP01 = Inr cmap"
      and "dict_keys forecasts_AP01 = seen @ rest"
  shows "length cmap = length (dict_keys forecasts_AP01)
       \<and> (\<exists>ts ns. list_comp strptime (dict_keys forecasts_AP01) = Inr ts
             \<and> normalized_times ts = Inr ns \<and> cmap = map cm ns)
       \<and> (case setup_axes s of (ax, s1) \<Rightarrow>
            case color_loop forecasts_AP01 cmap seen 0 s1 of (err, c, s2) \<Rightarrow>
              err = None
              \<and> c = length seen
              \<and> c = length (lines (figure_axes s2 ! ax))
              \<and> lines (figure_axes s2 ! ax) =
                  map2 (\<lambda>j (k, f). \<lparr>xdata = lon f, ydata = lat f, color = RGBA (cmap ! j),
                                      linewidth = 1 / 2, line_label = None\<rparr>)
                    [0..<length seen] (take (length seen) (DAList.impl_of forecasts_AP01))
              \<and> (if rest = [] then c = length cmap
                  else c < length cmap \<and> cmap_call cmap c = Inr (cmap ! c))
              \<and> color_loop forecasts_AP01 cmap (dict_keys forecasts_AP01) 0 s1
                  = color_loop forecasts_AP01 cmap rest c s2)
       \<and> (case temporal_cell strptime cm forecasts_AP01 sandy_ds s of (err, s') \<Rightarrow>
            err = None
            \<and> lines (last (figure_axes s')) =
                map2 (\<lambda>j (k, f). \<lparr>xdata = lon f, ydata = lat f, color = RGBA (cmap ! j),
                                    linewidth = 1 / 2, line_label = None\<rparr>)
                  [0..<length (dict_keys forecasts_AP01)] (DAList.impl_of forecasts_AP01)
                @ [\<lparr>xdata = lon sandy_ds, ydata = lat sandy_ds, color = Named ''red'',
                     linewidth = 1, line_label = Some ''True Path''\<rparr>])"
proof -
  let ?d = forecasts_AP01
  let ?n = "length (figure_axes s)"
  obtain ts ns where ts: "list_comp strptime (dict_keys ?d) = Inr ts"
    and ns: "normalized_times ts = Inr ns" and cmap: "cmap = ListedColormap cm ns"
    and len_ns: "length ns = length (dict_keys ?d)"
    using assms(1) by (rule cell_colormap_Inr)
  have len: "length cmap = length (dict_keys ?d)"
    by (simp add: cmap ListedColormap_def len_ns)
  have origin: "\<exists>ts ns. list_comp strptime (dict_keys ?d) = Inr ts
             \<and> normalized_times ts = Inr ns \<and> cmap = map cm ns"
    using ts ns cmap by (auto simp: ListedColormap_def)
  obtain a where init: "setup_axes s = (?n, s\<lparr>figure_axes := figure_axes s @ [a], current := Some ?n\<rparr>)"
    and a: "lines a = []"
    by (rule setup_axes_shape)
  define s1 where "s1 = s\<lparr>figure_axes := figure_axes s @ [a], current := Some ?n\<rparr>"
  have fig1: "figure_axes s1 = figure_axes s @ [a]" and cur1: "current s1 = Some ?n"
    by (simp_all add: s1_def)
  have sub: "set seen \<subseteq> set (dict_keys ?d)" by (simp add: assms(2))
  have bound: "0 + length seen \<le> length cmap" by (simp add: len assms(2))
  let ?ls = "map2 (\<lambda>j k. \<lparr>xdata = lon (the (DAList.lookup ?d k)), ydata = lat (the (DAList.lookup ?d k)),
                         color = RGBA (cmap ! j), linewidth = 1 / 2, line_label = None\<rparr> :: ('d, 'c) line2d)
                 [0..<0 + length seen] seen"
  define s2 where "s2 = s1\<lparr>figure_axes := figure_axes s @ [a\<lparr>lines := ?ls\<rparr>]\<rparr>"
  have loop: "color_loop ?d cmap seen 0 s1 = (None, length seen, s2)"
    using color_loop_lines [OF sub bound fig1 cur1] by (simp add: s2_def a)
  have keys_take: "seen = map fst (take (length seen) (DAList.impl_of ?d))"
    using assms(2) by (simp add: dict_keys_def take_map [symmetric])
  have in_items: "(k, f) \<in> set (DAList.impl_of ?d)"
    if "(k, f) \<in> set (take (length seen) (DAList.impl_of ?d))" for k f
    using that by (rule in_set_takeD)
  have "map2 (\<lambda>j k. \<lparr>xdata = lon (the (DAList.lookup ?d k)), ydata = lat (the (DAList.lookup ?d k)),
                         color = RGBA (cmap ! j), linewidth = 1 / 2, line_label = None\<rparr> :: ('d, 'c) line2d)
                 [0..<length seen] (map fst (take (length seen) (DAList.impl_of ?d)))
           = map2 (\<lambda>j (k, f). \<lparr>xdata = lon f, ydata = lat f, color = RGBA (cmap ! j),
                                      linewidth = 1 / 2, line_label = None\<rparr>)
                    [0..<length seen] (take (length seen) (DAList.impl_of ?d))"
    by (rule map2_items [where g = "\<lambda>j f. \<lparr>xdata = lon f, ydata = lat f, color = RGBA (cmap ! j),
                                      linewidth = 1 / 2, line_label = None\<rparr>"])
       (simp add: DAList.lookup.rep_eq in_items)
  then have ls: "?ls = map2 (\<lambda>j (k, f). \<lparr>xdata = lon f, ydata = lat f, color = RGBA (cmap ! j),
                                      linewidth = 1 / 2, line_label = None\<rparr>)
                    [0..<length seen] (take (length seen) (DAList.impl_of ?d))"
    unfolding keys_take [symmetric] by simp
  have len_items: "length (DAList.impl_of ?d) = length seen + length rest"
    using arg_cong [OF assms(2), of length] by (simp add: dict_keys_def)
  have lines2: "lines (figure_axes s2 ! ?n) = ?ls"
    by (simp add: s2_def)
  have cont: "color_loop ?d cmap (dict_keys ?d) 0 s1 = color_loop ?d cmap rest (length seen) s2"
    unfolding assms(2) color_loop_append loop by simp
  have idx: "if rest = [] then length seen = length cmap
             else length seen < length cmap \<and> cmap_call cmap (length seen) = Inr (cmap ! length seen)"
    using len assms(2) by (cases rest) (simp_all add: cmap_call_def)
  have "case setup_axes s of (ax, s1) \<Rightarrow>
            case color_loop ?d cmap seen 0 s1 of (err, c, s2) \<Rightarrow>
              err = None
              \<and> c = length seen
              \<and> c = length (lines (figure_axes s2 ! ax))
              \<and> lines (figure_axes s2 ! ax) =
                  map2 (\<lambda>j (k, f). \<lparr>xdata = lon f, ydata = lat f, color = RGBA (cmap ! j),
                                      linewidth = 1 / 2, line_label = None\<rparr>)
                    [0..<length seen] (take (length seen) (DAList.impl_of ?d))
              \<and> (if rest = [] then c = length cmap
                  else c < length cmap \<and> cmap_call cmap c = Inr (cmap ! c))
              \<and> color_loop ?d cmap (dict_keys ?d) 0 s1 = color_loop ?d cmap rest c s2"
    unfolding init s1_def [symmetric] prod.case loop
    using idx cont lines2 ls len_items by simp
  moreover have "case temporal_cell strptime cm ?d sandy_ds s of (err, s') \<Rightarrow>
            err = None
            \<and> lines (last (figure_axes s')) =
                map2 (\<lambda>j (k, f). \<lparr>xdata = lon f, ydata = lat f, color = RGBA (cmap ! j),
                                    linewidth = 1 / 2, line_label = None\<rparr>)
                  [0..<length (dict_keys ?d)] (DAList.impl_of ?d)
                @ [\<lparr>xdata = lon sandy_ds, ydata = lat sandy_ds, color = Named ''red'',
                     linewidth = 1, line_label = Some ''True Path''\<rparr>]"
    using temporal_cell_lines [OF assms(1), where sandy_ds = sandy_ds and s = s]
    by (simp split: prod.splits)
  ultimately show ?thesis using len origin by blast
qed

theorem color_loop_counter_witness:
  "cell_colormap sample_strptime (\<lambda>x. x) sample_forecasts = Inr [0, 1]
   \<and> dict_keys sample_forecasts = [''2012102200''] @ [''2012102206'']
   \<and> length [0, 1 :: rat] = length (dict_keys sample_forecasts)
   \<and> (case setup_axes empty_figure of (ax, s1) \<Rightarrow>
        case color_loop sample_forecasts [0, 1] [''2012102200''] 0 s1 of (err, c, s2) \<Rightarrow>
          err = None \<and> c = 1 \<and> c = length (lines (figure_axes s2 ! ax))
          \<and> lines (figure_axes s2 ! ax)
              = [\<lparr>xdata = [- 77], ydata = [14], color = RGBA 0, linewidth = 1 / 2,
                   line_label = None\<rparr>]
          \<and> c < length [0, 1 :: rat] \<and> cmap_call [0, 1 :: rat] c = Inr 1)"
  using color_loop_counter [OF sample_colormap sample_keys, where s = empty_figure]
    sample_colormap sample_keys
  by (simp add: setup_axes_eq empty_figure_def dict_get_def DAList.lookup.rep_eq sample_items
      cmap_call_def plt_plot_def gca_def on_axes_def Let_def)

section \<open>Library calls and the arithmetic of the notebook\<close>







end
